theory Spec2Isabelle
  imports Complex_Main
begin

section \<open>Adsorption notebook: calibration of chemical potential against pressure\<close>

text \<open>
  The notebook \<^verbatim>\<open>mc_gcmc-zeolite.ipynb\<close> is a linear script. Its own logic is modelled
  cell by cell; numpy, scipy and unyt are libraries the notebook calls, and their
  functions are modelled by what they compute, in exact real arithmetic (a float is
  read as the real number it stands for, and a result that is no real number, such as
  nan or inf, is the value \<open>None\<close>).
\<close>

subsection \<open>Exceptions\<close>

datatype error = ValueError | IndexError | FileExistsError

subsection \<open>Formatting a number with \<^verbatim>\<open>{:.0f}\<close>\<close>

definition digit_char :: "nat \<Rightarrow> char" where
  "digit_char d = ''0123456789'' ! d"

fun str_nat :: "nat \<Rightarrow> string" where
  "str_nat n = (if n < 10 then [digit_char n] else str_nat (n div 10) @ [digit_char (n mod 10)])"

declare str_nat.simps [simp del]

text \<open>
  Python rounds to the nearest integer, ties to the even one, and prints the sign of
  the argument (so \<^verbatim>\<open>-0.4\<close> prints as \<^verbatim>\<open>-0\<close>).
\<close>

definition round_half_even :: "real \<Rightarrow> nat" where
  "round_half_even x =
     (let f = nat \<lfloor>x\<rfloor>; d = x - of_int \<lfloor>x\<rfloor>
      in if d < 1 / 2 then f else if 1 / 2 < d then f + 1 else if even f then f else f + 1)"

definition format_0f :: "real \<Rightarrow> string" where
  "format_0f x = (if x < 0 then ''-'' else '''') @ str_nat (round_half_even \<bar>x\<bar>)"

subsection \<open>Cell 9: the calibration sweep over the pure fluid\<close>

text \<open>
  \<^verbatim>\<open>np.arange(start, stop, step)\<close> on integers with a positive step: the
  \<open>\<lceil>(stop - start) / step\<rceil>\<close> values \<open>start + i * step\<close>.
\<close>

definition np_arange :: "int \<Rightarrow> int \<Rightarrow> int \<Rightarrow> int list" where
  "np_arange start stop step =
     map (\<lambda>i. start + int i * step)
       [0..<nat \<lceil>real_of_int (stop - start) / real_of_int step\<rceil>]"

definition mus_adsorbate :: "int list" where
  "mus_adsorbate = np_arange (-46) (-25) 3"

text \<open>
  A chemical potential handed to the simulator is the string \<^verbatim>\<open>"none"\<close> or a float; the
  float is a real number or, as \<open>None\<close>, nan. The box of a system is a cubic box of
  given edges or the zeolite compound.
\<close>

datatype chemical_potential = NoPotential | Mu "real option"

datatype box = CubicBox "real list" | ZeoliteCompound

record run_config =
  run_dir :: string
  box_list :: "box list"
  run_type :: string
  run_length :: nat
  temperature :: real
  chemical_potentials :: "chemical_potential list"

definition temperature_K :: real where
  "temperature_K = 308"

definition boxl :: "int \<Rightarrow> real" where
  "boxl mu_adsorbate = (if mu_adsorbate < -34 then 20 else 5)"

definition pure_dirname :: "int \<Rightarrow> string" where
  "pure_dirname mu_adsorbate = ''pure_mu_'' @ format_0f (real_of_int mu_adsorbate)"

definition calibration_run :: "int \<Rightarrow> run_config" where
  "calibration_run mu_adsorbate =
     \<lparr>run_dir = pure_dirname mu_adsorbate,
      box_list = [CubicBox [boxl mu_adsorbate, boxl mu_adsorbate, boxl mu_adsorbate]],
      run_type = ''equil'',
      run_length = 100000,
      temperature = temperature_K,
      chemical_potentials = [Mu (Some (real_of_int mu_adsorbate))]\<rparr>"

definition calibration_runs :: "run_config list" where
  "calibration_runs = map calibration_run mus_adsorbate"

subsection \<open>Cells 11 and 30: averaging a column of the simulator's output table\<close>

text \<open>
  \<^verbatim>\<open>np.genfromtxt\<close> returns an array with every axis of length one removed. Its argument
  here is the list of the numeric lines of the file after the skipped header, a line
  being the list of its fields; blank lines are skipped, and lines of different lengths
  raise ValueError. A file with no line or a single line, or with a single column, is
  read as a one-dimensional array; any other file as a two-dimensional array, given with
  its number of columns, which is the length of each of its rows.
\<close>

datatype ndarray = Array1 "real list" | Array2 nat "real list list"

definition genfromtxt :: "real list list \<Rightarrow> error + ndarray" where
  "genfromtxt file_lines =
     (case filter (\<lambda>r. r \<noteq> []) file_lines of
        [] \<Rightarrow> Inr (Array1 [])
      | [r] \<Rightarrow> Inr (Array1 r)
      | r # rs \<Rightarrow>
          if \<not> list_all (\<lambda>r'. length r' = length r) rs then Inl ValueError
          else if length r = 1 then Inr (Array1 (map hd (r # rs)))
          else Inr (Array2 (length r) (r # rs)))"

text \<open>
  The index expression \<^verbatim>\<open>thermo[start:, c]\<close>: two indices on a one-dimensional array
  raise IndexError, and so does a column that the array does not have, also when the
  slice of rows is empty.
\<close>

definition rows_from_col :: "ndarray \<Rightarrow> nat \<Rightarrow> nat \<Rightarrow> error + real list" where
  "rows_from_col thermo start c =
     (case thermo of
        Array1 _ \<Rightarrow> Inl IndexError
      | Array2 ncols rows \<Rightarrow>
          if c < ncols then Inr (map (\<lambda>r. r ! c) (drop start rows)) else Inl IndexError)"

text \<open>\<^verbatim>\<open>np.mean\<close> of an empty array is nan (with a warning, no exception).\<close>

definition np_mean :: "real list \<Rightarrow> real option" where
  "np_mean xs = (if xs = [] then None else Some (sum_list xs / real (length xs)))"

definition pressure_col :: nat where
  "pressure_col = 6"

definition nmol_col :: nat where
  "nmol_col = 9"

definition n_unitcells :: real where
  "n_unitcells = 12"

definition mean_pressure :: "ndarray \<Rightarrow> error + real option" where
  "mean_pressure thermo =
     (case rows_from_col thermo 3000 (pressure_col - 1) of
        Inl e \<Rightarrow> Inl e
      | Inr col \<Rightarrow> Inr (np_mean col))"

definition mean_loading :: "ndarray \<Rightarrow> error + real option" where
  "mean_loading thermo =
     (case rows_from_col thermo 3000 (nmol_col - 1) of
        Inl e \<Rightarrow> Inl e
      | Inr col \<Rightarrow> Inr (np_mean (map (\<lambda>v. v / n_unitcells) col)))"

definition file_mean_pressure :: "real list list \<Rightarrow> error + real option" where
  "file_mean_pressure file_lines =
     (case genfromtxt file_lines of Inl e \<Rightarrow> Inl e | Inr thermo \<Rightarrow> mean_pressure thermo)"

definition file_mean_loading :: "real list list \<Rightarrow> error + real option" where
  "file_mean_loading file_lines =
     (case genfromtxt file_lines of Inl e \<Rightarrow> Inl e | Inr thermo \<Rightarrow> mean_loading thermo)"

subsection \<open>Cell 14: the fit of \<open>\<mu>\<close> against \<open>ln P\<close>\<close>

text \<open>
  \<^verbatim>\<open>np.log\<close> is -inf at zero and nan below it: no real number.
\<close>

definition np_log :: "real \<Rightarrow> real option" where
  "np_log p = (if 0 < p then Some (ln p) else None)"

record linregress_result =
  slope :: real
  intercept :: real
  r_value :: real
  p_value :: real
  stderr :: real

definition mean_list :: "real list \<Rightarrow> real" where
  "mean_list xs = sum_list xs / real (length xs)"

text \<open>
  \<^verbatim>\<open>scipy.stats.linregress(x, y)\<close>: the slope is the covariance of \<open>x\<close> and \<open>y\<close> over
  the variance of \<open>x\<close> (both from \<^verbatim>\<open>np.cov(x, y, bias=1)\<close>), the intercept is
  \<open>ymean - slope * xmean\<close>. Empty inputs and inputs of different lengths raise
  ValueError; when the variance of \<open>x\<close> is zero the quotient is 0/0 (nan in older
  releases, ValueError in newer ones). All of these are the result \<open>None\<close>: no real
  slope and intercept are returned. The correlation coefficient, the p-value (from
  Student's t distribution) and the standard error are computed by the library from the
  same data; they are the parameter \<open>quality\<close>.
\<close>

definition linregress ::
  "(real list \<Rightarrow> real list \<Rightarrow> real \<times> real \<times> real) \<Rightarrow> real list \<Rightarrow> real list
     \<Rightarrow> linregress_result option" where
  "linregress quality x y =
     (if x = [] \<or> y = [] \<or> length x \<noteq> length y then None
      else
        let xmean = mean_list x;
            ymean = mean_list y;
            ssxm = mean_list (map (\<lambda>xi. (xi - xmean) * (xi - xmean)) x);
            ssxym = mean_list (map (\<lambda>(xi, yi). (xi - xmean) * (yi - ymean)) (zip x y))
        in if ssxm = 0 then None
           else
             let s = ssxym / ssxm;
                 (r, p, se) = quality x y
             in Some \<lparr>slope = s, intercept = ymean - s * xmean,
                      r_value = r, p_value = p, stderr = se\<rparr>)"

text \<open>
  The cell: \<^verbatim>\<open>linregress(np.log(pressures).flatten(), y=mus_adsorbate.flatten())\<close>. A nan
  or inf among the logarithms makes every output of the library nan.
\<close>

definition calibrate ::
  "(real list \<Rightarrow> real list \<Rightarrow> real \<times> real \<times> real) \<Rightarrow> real list \<Rightarrow> real list
     \<Rightarrow> linregress_result option" where
  "calibrate quality pressures mus =
     (case those (map np_log pressures) of
        None \<Rightarrow> None
      | Some log_pressures \<Rightarrow> linregress quality log_pressures mus)"

definition cell14_fit ::
  "(real list \<Rightarrow> real list \<Rightarrow> real \<times> real \<times> real) \<Rightarrow> real list
     \<Rightarrow> linregress_result option" where
  "cell14_fit quality pressures = calibrate quality pressures (map real_of_int mus_adsorbate)"

text \<open>
  The least-squares objective of the model \<open>\<mu> = s \<cdot> x + b\<close> on the data \<open>x\<close>, \<open>y\<close>: what
  an ordinary least-squares fit of \<open>y\<close> against \<open>x\<close> minimises.
\<close>

definition sum_squared_residuals :: "real list \<Rightarrow> real list \<Rightarrow> real \<Rightarrow> real \<Rightarrow> real" where
  "sum_squared_residuals x y s b = (\<Sum>(xi, yi)\<leftarrow>zip x y. (yi - (s * xi + b))\<^sup>2)"

subsection \<open>Cell 16: chemical potentials for the target pressures\<close>

datatype pressure_unit = Pa | bar

definition unit_in_Pa :: "pressure_unit \<Rightarrow> real" where
  "unit_in_Pa u = (case u of Pa \<Rightarrow> 1 | bar \<Rightarrow> 100000)"

record unyt_array =
  magnitudes :: "real list"
  units :: pressure_unit

definition in_units :: "unyt_array \<Rightarrow> pressure_unit \<Rightarrow> unyt_array" where
  "in_units a u =
     \<lparr>magnitudes = map (\<lambda>v. v * unit_in_Pa (units a) / unit_in_Pa u) (magnitudes a),
      units = u\<rparr>"

definition pressures :: unyt_array where
  "pressures =
     \<lparr>magnitudes = [6000, 22100, 49180, 121800, 316800, 839700, 2243000, 6000000],
      units = Pa\<rparr>"

text \<open>
  \<^verbatim>\<open>mus = slope * np.log(pressures.in_units(u.bar)) + intercept\<close>, element by element;
  only the slope and the intercept of the unpacked fit are used.
\<close>

definition target_mus :: "linregress_result \<Rightarrow> unyt_array \<Rightarrow> real option list" where
  "target_mus fit ps =
     map (\<lambda>p. map_option (\<lambda>l. slope fit * l + intercept fit) (np_log p))
       (magnitudes (in_units ps bar))"

subsection \<open>Cell 28: the production runs in the zeolite\<close>

text \<open>
  The system of every production run is the zeolite with no methane in it; the species
  are the zeolite, with the chemical potential \<^verbatim>\<open>"none"\<close>, and methane, with the computed
  one.
\<close>

definition zeo_dirname :: "real \<Rightarrow> string" where
  "zeo_dirname pressure_value = ''zeo_press_'' @ format_0f pressure_value"

definition production_run :: "real \<times> real option \<Rightarrow> run_config" where
  "production_run pm =
     \<lparr>run_dir = zeo_dirname (fst pm),
      box_list = [ZeoliteCompound],
      run_type = ''equil'',
      run_length = 100000,
      temperature = temperature_K,
      chemical_potentials = [NoPotential, Mu (snd pm)]\<rparr>"

definition production_runs :: "linregress_result \<Rightarrow> unyt_array \<Rightarrow> run_config list" where
  "production_runs fit ps = map production_run (zip (magnitudes ps) (target_mus fit ps))"

subsection \<open>Cells 9 and 28: the directory of a run\<close>

text \<open>
  The state of the working directory: what each name in it is, and the \<^verbatim>\<open>os.mkdir\<close>
  calls made so far. Names are relative to a working directory that exists and can be
  written.
\<close>

datatype node = RegularFile | Directory

record os_state =
  entries :: "string \<rightharpoonup> node"
  mkdir_calls :: "string list"

definition os_path_isdir :: "os_state \<Rightarrow> string \<Rightarrow> bool" where
  "os_path_isdir st path = (entries st path = Some Directory)"

definition os_mkdir :: "os_state \<Rightarrow> string \<Rightarrow> error + os_state" where
  "os_mkdir st path =
     (if entries st path = None
      then Inr (st\<lparr>entries := (entries st)(path \<mapsto> Directory),
                   mkdir_calls := mkdir_calls st @ [path]\<rparr>)
      else Inl FileExistsError)"

definition make_run_dir :: "os_state \<Rightarrow> string \<Rightarrow> error + os_state" where
  "make_run_dir st dirname =
     (if \<not> os_path_isdir st dirname then os_mkdir st dirname else Inr st)"

fun make_run_dirs :: "os_state \<Rightarrow> string list \<Rightarrow> error + os_state" where
  "make_run_dirs st [] = Inr st"
| "make_run_dirs st (dirname # rest) =
     (case make_run_dir st dirname of
        Inl e \<Rightarrow> Inl e
      | Inr st' \<Rightarrow> make_run_dirs st' rest)"

definition calibration_loop_dirs :: "os_state \<Rightarrow> error + os_state" where
  "calibration_loop_dirs st = make_run_dirs st (map pure_dirname mus_adsorbate)"

definition production_loop_dirs :: "os_state \<Rightarrow> unyt_array \<Rightarrow> error + os_state" where
  "production_loop_dirs st ps = make_run_dirs st (map zeo_dirname (magnitudes ps))"

subsection \<open>The same cells in binary64 arithmetic\<close>

















subsection \<open>Sums of a fit, on the list of pairs of the data\<close>

text \<open>
  The means of both coordinates and the sums of squares and products of the deviations
  from them: \<^verbatim>\<open>np.cov(x, y, bias=1)\<close> is these sums over the number of pairs.
\<close>

definition xmean_of :: "(real \<times> real) list \<Rightarrow> real" where
  "xmean_of zs = (\<Sum>z\<leftarrow>zs. fst z) / real (length zs)"

definition ymean_of :: "(real \<times> real) list \<Rightarrow> real" where
  "ymean_of zs = (\<Sum>z\<leftarrow>zs. snd z) / real (length zs)"

definition varsum :: "(real \<times> real) list \<Rightarrow> real" where
  "varsum zs = (\<Sum>z\<leftarrow>zs. (fst z - xmean_of zs) * (fst z - xmean_of zs))"

definition covsum :: "(real \<times> real) list \<Rightarrow> real" where
  "covsum zs = (\<Sum>z\<leftarrow>zs. (fst z - xmean_of zs) * (snd z - ymean_of zs))"

subsection \<open>Sample output tables\<close>

text \<open>
  Two lines of nine fields: the step in the first place, the pressure in the sixth and
  the number of molecules in the ninth, the columns the notebook reads.
\<close>

definition zero_row :: "real list" where
  "zero_row = [0, 0, 0, 0, 0, 0, 0, 0, 0]"

definition last_row :: "real list" where
  "last_row = [30000, 0, 0, 0, 0, 7, 0, 0, 12]"

section \<open>Properties\<close>

lemma mus_adsorbate_values: "mus_adsorbate = [-46, -43, -40, -37, -34, -31, -28]"
proof -
  have n: "nat \<lceil>real_of_int (- 25 - (- 46)) / real_of_int 3\<rceil> = 7"
    by simp
  have u: "[0..<7] = [0, 1, 2, 3, 4, 5, 6]"
    by (simp add: upt_rec)
  show ?thesis
    unfolding mus_adsorbate_def np_arange_def n u by simp
qed

text \<open>
  Claim C9. The calibration sweep runs at exactly the seven chemical potentials
  -46, -43, -40, -37, -34, -31, -28 (the endpoint -25 is not among them), one run each
  with that chemical potential, and the cubic box of the run has edge 20 nm for the
  four values below -34 and 5 nm for the others; the run at -34 itself gets the 5 nm box.
\<close>

theorem calibration_sweep_values_and_boxes:
  "mus_adsorbate = [-46, -43, -40, -37, -34, -31, -28]
   \<and> - 25 \<notin> set mus_adsorbate
   \<and> map chemical_potentials calibration_runs =
       [[Mu (Some (-46))], [Mu (Some (-43))], [Mu (Some (-40))], [Mu (Some (-37))],
        [Mu (Some (-34))], [Mu (Some (-31))], [Mu (Some (-28))]]
   \<and> map box_list calibration_runs =
       [[CubicBox [20, 20, 20]], [CubicBox [20, 20, 20]], [CubicBox [20, 20, 20]],
        [CubicBox [20, 20, 20]], [CubicBox [5, 5, 5]], [CubicBox [5, 5, 5]],
        [CubicBox [5, 5, 5]]]
   \<and> boxl (-34) = 5"
  by (simp add: mus_adsorbate_values calibration_runs_def calibration_run_def boxl_def)

subsection \<open>The least-squares fit\<close>

lemma sum_resid_expand:
  fixes zs :: "(real \<times> real) list"
  shows "(\<Sum>z\<leftarrow>zs. snd z - (s * fst z + b)) =
         (\<Sum>z\<leftarrow>zs. snd z) - s * (\<Sum>z\<leftarrow>zs. fst z) - real (length zs) * b"
  by (induction zs) (simp_all add: algebra_simps)

lemma sum_resid_x_expand:
  fixes zs :: "(real \<times> real) list"
  shows "(\<Sum>z\<leftarrow>zs. (snd z - (s * fst z + b)) * fst z) =
         (\<Sum>z\<leftarrow>zs. fst z * snd z) - s * (\<Sum>z\<leftarrow>zs. fst z * fst z) - b * (\<Sum>z\<leftarrow>zs. fst z)"
  by (induction zs) (simp_all add: algebra_simps)

lemma sum_cov_expand:
  fixes zs :: "(real \<times> real) list"
  shows "(\<Sum>z\<leftarrow>zs. (fst z - a) * (snd z - c)) =
         (\<Sum>z\<leftarrow>zs. fst z * snd z) - a * (\<Sum>z\<leftarrow>zs. snd z) - c * (\<Sum>z\<leftarrow>zs. fst z)
           + real (length zs) * a * c"
  by (induction zs) (simp_all add: algebra_simps)

lemma sum_var_expand:
  fixes zs :: "(real \<times> real) list"
  shows "(\<Sum>z\<leftarrow>zs. (fst z - a) * (fst z - a)) =
         (\<Sum>z\<leftarrow>zs. fst z * fst z) - 2 * a * (\<Sum>z\<leftarrow>zs. fst z) + real (length zs) * a * a"
  by (induction zs) (simp_all add: algebra_simps)

lemma sum_sq_shift:
  fixes zs :: "(real \<times> real) list"
  shows "(\<Sum>z\<leftarrow>zs. (snd z - (s' * fst z + b'))\<^sup>2) =
         (\<Sum>z\<leftarrow>zs. (snd z - (s * fst z + b))\<^sup>2)
         + 2 * (s - s') * (\<Sum>z\<leftarrow>zs. (snd z - (s * fst z + b)) * fst z)
         + 2 * (b - b') * (\<Sum>z\<leftarrow>zs. snd z - (s * fst z + b))
         + (\<Sum>z\<leftarrow>zs. ((s - s') * fst z + (b - b'))\<^sup>2)"
  by (induction zs) (simp_all add: algebra_simps power2_eq_square)

lemma normal_equations_algebra:
  fixes n :: real
  assumes "Sx = n * xm" "Sy = n * ym"
    and "s * (Sxx - 2 * xm * Sx + n * xm * xm) = Sxy - xm * Sy - ym * Sx + n * xm * ym"
    and "b = ym - s * xm"
  shows "Sy - s * Sx - n * b = 0" and "Sxy - s * Sxx - b * Sx = 0"
proof -
  show "Sy - s * Sx - n * b = 0"
    unfolding assms(1,2,4) by (simp add: algebra_simps)
  have "s * Sxx - s * n * xm * xm = Sxy - n * xm * ym"
    using assms(3) unfolding assms(1,2) by (simp add: algebra_simps)
  then show "Sxy - s * Sxx - b * Sx = 0"
    unfolding assms(1,4) by (simp add: algebra_simps)
qed

lemma map_over_zip_fst:
  "length x = length y \<Longrightarrow> map f x = map (\<lambda>z. f (fst z)) (zip x y)"
  by (induction x y rule: list_induct2) simp_all

lemma linregress_eq:
  assumes "x \<noteq> []" "length x = length y"
  shows "linregress q x y =
           (if varsum (zip x y) = 0 then None
            else Some \<lparr>slope = covsum (zip x y) / varsum (zip x y),
                       intercept = ymean_of (zip x y)
                          - covsum (zip x y) / varsum (zip x y) * xmean_of (zip x y),
                       r_value = fst (q x y), p_value = fst (snd (q x y)),
                       stderr = snd (snd (q x y))\<rparr>)"
proof -
  let ?zs = "zip x y"
  have n: "real (length x) \<noteq> 0" "length ?zs = length x" "y \<noteq> []"
    using assms by auto
  have fx: "x = map fst ?zs" and fy: "y = map snd ?zs"
    using assms(2) by simp_all
  have xm: "mean_list x = xmean_of ?zs"
    unfolding mean_list_def xmean_of_def using fx n(2) by metis
  have ym: "mean_list y = ymean_of ?zs"
    unfolding mean_list_def ymean_of_def using fy n(2) assms(2) by metis
  have v: "mean_list (map (\<lambda>xi. (xi - xmean_of ?zs) * (xi - xmean_of ?zs)) x)
             = varsum ?zs / real (length x)"
    unfolding mean_list_def varsum_def
    using map_over_zip_fst [OF assms(2), of "\<lambda>xi. (xi - xmean_of ?zs) * (xi - xmean_of ?zs)"]
    by (simp add: assms(2))
  have c: "mean_list (map (\<lambda>(xi, yi). (xi - xmean_of ?zs) * (yi - ymean_of ?zs)) ?zs)
             = covsum ?zs / real (length x)"
    unfolding mean_list_def covsum_def using assms(2)
    by (simp add: case_prod_unfold)
  show ?thesis
    unfolding linregress_def xm ym Let_def v c using assms(1) n(1,3)
    by (simp add: case_prod_unfold assms(2))
qed

lemma fit_normal_equations:
  assumes "zs \<noteq> []" "varsum zs \<noteq> 0"
    and s: "s = covsum zs / varsum zs" and b: "b = ymean_of zs - s * xmean_of zs"
  shows "(\<Sum>z\<leftarrow>zs. snd z - (s * fst z + b)) = 0"
    and "(\<Sum>z\<leftarrow>zs. (snd z - (s * fst z + b)) * fst z) = 0"
proof -
  have n: "real (length zs) \<noteq> 0"
    using assms(1) by simp
  have sx: "(\<Sum>z\<leftarrow>zs. fst z) = real (length zs) * xmean_of zs"
    using n by (simp add: xmean_of_def)
  have sy: "(\<Sum>z\<leftarrow>zs. snd z) = real (length zs) * ymean_of zs"
    using n by (simp add: ymean_of_def)
  have "s * varsum zs = covsum zs"
    using assms(2) s by simp
  then have sv: "s * ((\<Sum>z\<leftarrow>zs. fst z * fst z) - 2 * xmean_of zs * (\<Sum>z\<leftarrow>zs. fst z)
                   + real (length zs) * xmean_of zs * xmean_of zs)
               = (\<Sum>z\<leftarrow>zs. fst z * snd z) - xmean_of zs * (\<Sum>z\<leftarrow>zs. snd z)
                   - ymean_of zs * (\<Sum>z\<leftarrow>zs. fst z)
                   + real (length zs) * xmean_of zs * ymean_of zs"
    unfolding varsum_def covsum_def sum_var_expand sum_cov_expand .
  show "(\<Sum>z\<leftarrow>zs. snd z - (s * fst z + b)) = 0"
    unfolding sum_resid_expand by (rule normal_equations_algebra(1) [OF sx sy sv b])
  show "(\<Sum>z\<leftarrow>zs. (snd z - (s * fst z + b)) * fst z) = 0"
    unfolding sum_resid_x_expand by (rule normal_equations_algebra(2) [OF sx sy sv b])
qed

lemma fit_sum_squares:
  assumes "zs \<noteq> []" "varsum zs \<noteq> 0"
    and s: "s = covsum zs / varsum zs" and b: "b = ymean_of zs - s * xmean_of zs"
  shows "(\<Sum>z\<leftarrow>zs. (snd z - (s' * fst z + b'))\<^sup>2) =
         (\<Sum>z\<leftarrow>zs. (snd z - (s * fst z + b))\<^sup>2)
         + (\<Sum>z\<leftarrow>zs. ((s - s') * fst z + (b - b'))\<^sup>2)"
  unfolding sum_sq_shift [of s' b' zs s b]
  by (simp add: fit_normal_equations [OF assms])

lemma xmean_of_constant:
  assumes "zs \<noteq> []" "\<forall>z\<in>set zs. fst z = c"
  shows "xmean_of zs = c"
proof -
  have "(\<Sum>z\<leftarrow>zs. fst z) = real (length zs) * c"
    using assms(2) by (induction zs) (simp_all add: algebra_simps)
  then show ?thesis
    using assms(1) by (simp add: xmean_of_def)
qed

lemma varsum_zero_iff:
  assumes "zs \<noteq> []"
  shows "varsum zs = 0 \<longleftrightarrow> (\<forall>z\<in>set zs. fst z = xmean_of zs)"
proof -
  have "varsum zs = 0 \<longleftrightarrow> (\<forall>v\<in>set (map (\<lambda>z. (fst z - xmean_of zs) * (fst z - xmean_of zs)) zs). v = 0)"
    unfolding varsum_def by (rule sum_list_nonneg_eq_0_iff) auto
  then show ?thesis by auto
qed

lemma varsum_nonzero_two_points:
  assumes "zs \<noteq> []" "varsum zs \<noteq> 0"
  shows "\<exists>z1\<in>set zs. \<exists>z2\<in>set zs. fst z1 \<noteq> fst z2"
proof (rule ccontr)
  assume a: "\<not> (\<exists>z1\<in>set zs. \<exists>z2\<in>set zs. fst z1 \<noteq> fst z2)"
  have h: "hd zs \<in> set zs"
    using assms(1) by simp
  have c: "\<forall>z\<in>set zs. fst z = fst (hd zs)"
    using a h by blast
  have "xmean_of zs = fst (hd zs)"
    by (rule xmean_of_constant [OF assms(1) c])
  with c have "\<forall>z\<in>set zs. fst z = xmean_of zs"
    by simp
  then have "varsum zs = 0"
    using varsum_zero_iff [OF assms(1)] by simp
  with assms(2) show False
    by simp
qed

lemma fit_unique:
  assumes "zs \<noteq> []" "varsum zs \<noteq> 0"
    and s: "s = covsum zs / varsum zs" and b: "b = ymean_of zs - s * xmean_of zs"
    and eq: "(\<Sum>z\<leftarrow>zs. (snd z - (s' * fst z + b'))\<^sup>2) = (\<Sum>z\<leftarrow>zs. (snd z - (s * fst z + b))\<^sup>2)"
  shows "s' = s \<and> b' = b"
proof -
  have "(\<Sum>z\<leftarrow>zs. ((s - s') * fst z + (b - b'))\<^sup>2) = 0"
    using fit_sum_squares [OF assms(1-4), of s' b'] eq by simp
  then have "\<forall>v\<in>set (map (\<lambda>z. ((s - s') * fst z + (b - b'))\<^sup>2) zs). v = 0"
    by (subst (asm) sum_list_nonneg_eq_0_iff) auto
  then have z: "\<forall>z\<in>set zs. (s - s') * fst z + (b - b') = 0"
    by auto
  obtain z1 z2 where p: "z1 \<in> set zs" "z2 \<in> set zs" "fst z1 \<noteq> fst z2"
    using varsum_nonzero_two_points [OF assms(1,2)] by blast
  have e: "(s - s') * fst z1 + (b - b') = 0" "(s - s') * fst z2 + (b - b') = 0"
    using z p by auto
  then have "(s - s') * (fst z1 - fst z2) = 0"
    by (simp add: algebra_simps)
  then have ss: "s = s'"
    using p(3) by simp
  have "b = b'"
    using e(1) unfolding ss by simp
  with ss show ?thesis by simp
qed

lemma fit_minimal:
  assumes "zs \<noteq> []" "varsum zs \<noteq> 0"
    and s: "s = covsum zs / varsum zs" and b: "b = ymean_of zs - s * xmean_of zs"
  shows "(\<Sum>z\<leftarrow>zs. (snd z - (s * fst z + b))\<^sup>2) \<le> (\<Sum>z\<leftarrow>zs. (snd z - (s' * fst z + b'))\<^sup>2)"
proof -
  have "0 \<le> (\<Sum>z\<leftarrow>zs. ((s - s') * fst z + (b - b'))\<^sup>2)"
    by (rule sum_list_nonneg) auto
  then show ?thesis
    using fit_sum_squares [OF assms, of s' b'] by simp
qed

lemma those_np_log:
  "those (map np_log ps) = (if \<forall>p\<in>set ps. 0 < p then Some (map ln ps) else None)"
  by (induction ps) (simp_all add: np_log_def)

lemma ssr_pairs:
  "sum_squared_residuals x y s b = (\<Sum>z\<leftarrow>zip x y. (snd z - (s * fst z + b))\<^sup>2)"
  by (simp add: sum_squared_residuals_def case_prod_unfold)

lemma varsum_two_points:
  assumes "z1 \<in> set zs" "z2 \<in> set zs" "fst z1 \<noteq> fst z2"
  shows "varsum zs \<noteq> 0"
proof
  assume v: "varsum zs = 0"
  have ne: "zs \<noteq> []"
    using assms(1) by auto
  have "\<forall>z\<in>set zs. fst z = xmean_of zs"
    using v varsum_zero_iff [OF ne] by simp
  then have "fst z1 = xmean_of zs" "fst z2 = xmean_of zs"
    using assms(1,2) by simp_all
  with assms(3) show False
    by simp
qed


lemma two_distinct_elements:
  assumes "2 \<le> card (set ps)"
  shows "\<exists>p1\<in>set ps. \<exists>p2\<in>set ps. p1 \<noteq> p2"
proof (rule ccontr)
  assume "\<not> (\<exists>p1\<in>set ps. \<exists>p2\<in>set ps. p1 \<noteq> p2)"
  then have "set ps \<subseteq> {hd ps}"
    by (cases ps) auto
  then have "card (set ps) \<le> card {hd ps}"
    by (intro card_mono) simp_all
  with assms show False
    by simp
qed

lemma calibrate_eq:
  assumes "\<forall>p\<in>set ps. 0 < p" "ps \<noteq> []" "length mus = length ps"
  shows "calibrate q ps mus =
           (if varsum (zip (map ln ps) mus) = 0 then None
            else Some \<lparr>slope = covsum (zip (map ln ps) mus) / varsum (zip (map ln ps) mus),
                       intercept = ymean_of (zip (map ln ps) mus)
                          - covsum (zip (map ln ps) mus) / varsum (zip (map ln ps) mus)
                            * xmean_of (zip (map ln ps) mus),
                       r_value = fst (q (map ln ps) mus),
                       p_value = fst (snd (q (map ln ps) mus)),
                       stderr = snd (snd (q (map ln ps) mus))\<rparr>)"
proof -
  have "calibrate q ps mus = linregress q (map ln ps) mus"
    using assms(1) by (simp add: calibrate_def those_np_log)
  also have "\<dots> = (if varsum (zip (map ln ps) mus) = 0 then None
            else Some \<lparr>slope = covsum (zip (map ln ps) mus) / varsum (zip (map ln ps) mus),
                       intercept = ymean_of (zip (map ln ps) mus)
                          - covsum (zip (map ln ps) mus) / varsum (zip (map ln ps) mus)
                            * xmean_of (zip (map ln ps) mus),
                       r_value = fst (q (map ln ps) mus),
                       p_value = fst (snd (q (map ln ps) mus)),
                       stderr = snd (snd (q (map ln ps) mus))\<rparr>)"
    by (rule linregress_eq) (use assms in simp_all)
  finally show ?thesis .
qed

lemma calibrate_SomeD:
  assumes "calibrate q ps mus = Some fit"
  shows "(\<forall>p\<in>set ps. 0 < p) \<and> ps \<noteq> [] \<and> length mus = length ps
         \<and> varsum (zip (map ln ps) mus) \<noteq> 0
         \<and> slope fit = covsum (zip (map ln ps) mus) / varsum (zip (map ln ps) mus)
         \<and> intercept fit = ymean_of (zip (map ln ps) mus) - slope fit * xmean_of (zip (map ln ps) mus)"
proof -
  have pos: "\<forall>p\<in>set ps. 0 < p"
    using assms by (auto simp: calibrate_def those_np_log split: if_splits)
  then have l: "linregress q (map ln ps) mus = Some fit"
    using assms by (simp add: calibrate_def those_np_log)
  then have ne: "ps \<noteq> []" and len: "length mus = length ps"
    by (auto simp: linregress_def split: if_splits)
  show ?thesis
    using assms pos ne len unfolding calibrate_eq [OF pos ne len]
    by (auto split: if_splits)
qed

lemma distinct_pressures_varsum:
  assumes "\<forall>p\<in>set ps. 0 < p" "2 \<le> card (set ps)" "length mus = length ps"
  shows "varsum (zip (map ln ps) mus) \<noteq> 0"
proof -
  obtain p1 p2 where p: "p1 \<in> set ps" "p2 \<in> set ps" "p1 \<noteq> p2"
    using two_distinct_elements [OF assms(2)] by blast
  have l: "ln p1 \<noteq> ln p2"
    using p assms(1) by simp
  have len: "length (map ln ps) = length mus"
    using assms(3) by simp
  have fsts: "map fst (zip (map ln ps) mus) = map ln ps"
    using len by simp
  have "ln p1 \<in> set (map fst (zip (map ln ps) mus))" "ln p2 \<in> set (map fst (zip (map ln ps) mus))"
    unfolding fsts using p by simp_all
  then obtain z1 z2 where z: "z1 \<in> set (zip (map ln ps) mus)" "fst z1 = ln p1"
      "z2 \<in> set (zip (map ln ps) mus)" "fst z2 = ln p2"
    by auto
  show ?thesis
    by (rule varsum_two_points [OF z(1) z(3)]) (simp add: z l)
qed

text \<open>
  Claim C1. The calibration fits \<open>\<mu>\<close> against \<open>ln P\<close> by ordinary least squares: for
  positive mean pressures, a slope and intercept it returns make the sum of the squared
  residuals \<open>\<mu>\<^sub>i - (s \<cdot> ln P\<^sub>i + b)\<close> no larger than any other pair does, and
  they are the only pair that attains this minimum. With as many chemical potentials as
  pressures, and two different pressures among them, a fit is returned.
\<close>

theorem calibrate_least_squares:
  assumes "\<forall>p\<in>set ps. 0 < p"
  shows "(\<forall>fit. calibrate quality ps mus = Some fit \<longrightarrow>
            (\<forall>s b. sum_squared_residuals (map ln ps) mus (slope fit) (intercept fit)
                     \<le> sum_squared_residuals (map ln ps) mus s b)
          \<and> (\<forall>s b. sum_squared_residuals (map ln ps) mus s b
                       = sum_squared_residuals (map ln ps) mus (slope fit) (intercept fit)
                     \<longrightarrow> s = slope fit \<and> b = intercept fit))
         \<and> (length mus = length ps \<and> 2 \<le> card (set ps)
              \<longrightarrow> calibrate quality ps mus \<noteq> None)"
proof (intro conjI allI impI)
  fix fit s b
  assume f: "calibrate quality ps mus = Some fit"
  let ?zs = "zip (map ln ps) mus"
  note d = calibrate_SomeD [OF f]
  have ne: "?zs \<noteq> []"
    using d by (cases ps; cases mus) auto
  have v: "varsum ?zs \<noteq> 0" and sl: "slope fit = covsum ?zs / varsum ?zs"
    and ic: "intercept fit = ymean_of ?zs - slope fit * xmean_of ?zs"
    using d by simp_all
  show "sum_squared_residuals (map ln ps) mus (slope fit) (intercept fit)
          \<le> sum_squared_residuals (map ln ps) mus s b"
    unfolding ssr_pairs by (rule fit_minimal [OF ne v sl ic])
  assume "sum_squared_residuals (map ln ps) mus s b
            = sum_squared_residuals (map ln ps) mus (slope fit) (intercept fit)"
  then have e: "(\<Sum>z\<leftarrow>?zs. (snd z - (s * fst z + b))\<^sup>2)
              = (\<Sum>z\<leftarrow>?zs. (snd z - (slope fit * fst z + intercept fit))\<^sup>2)"
    unfolding ssr_pairs .
  show "s = slope fit" "b = intercept fit"
    using fit_unique [OF ne v sl ic e] by simp_all
next
  assume a: "length mus = length ps \<and> 2 \<le> card (set ps)"
  then have ne: "ps \<noteq> []"
    by auto
  have v: "varsum (zip (map ln ps) mus) \<noteq> 0"
    using distinct_pressures_varsum [OF assms] a by simp
  show "calibrate quality ps mus \<noteq> None"
    using calibrate_eq [OF assms ne, of mus quality] a v by simp
qed

lemma calibrate_two_points:
  "calibrate (\<lambda>x y. (1, 0, 0)) [1, exp 1] [-46, -43]
     = Some \<lparr>slope = 3, intercept = -46, r_value = 1, p_value = 0, stderr = 0\<rparr>"
  by (simp add: calibrate_def np_log_def linregress_def mean_list_def Let_def)

theorem calibrate_least_squares_witness:
  "(0::real) < 1 \<and> (0::real) < exp 1
   \<and> calibrate (\<lambda>x y. (1, 0, 0)) [1, exp 1] [-46, -43]
       = Some \<lparr>slope = 3, intercept = -46, r_value = 1, p_value = 0, stderr = 0\<rparr>
   \<and> sum_squared_residuals (map ln [1, exp 1]) [-46, -43] 3 (-46)
       \<le> sum_squared_residuals (map ln [1, exp 1]) [-46, -43] 0 0
   \<and> length [-46, -43 :: real] = length [1, exp 1 :: real]
   \<and> 2 \<le> card (set [1, exp 1 :: real])
   \<and> calibrate (\<lambda>x y. (1, 0, 0)) [1, exp 1] [-46, -43] \<noteq> None"
proof -
  have h: "\<forall>p\<in>set [1, exp 1 :: real]. 0 < p"
    by simp
  have c: "length [-46, -43 :: real] = length [1, exp 1 :: real]
             \<and> 2 \<le> card (set [1, exp 1 :: real])"
    by simp
  note t = calibrate_least_squares [OF h, of "\<lambda>x y. (1, 0, 0)" "[-46, -43]"]
  have "sum_squared_residuals (map ln [1, exp 1]) [-46, -43] 3 (-46)
       \<le> sum_squared_residuals (map ln [1, exp 1]) [-46, -43] 0 0"
    using t calibrate_two_points by simp
  moreover have "calibrate (\<lambda>x y. (1, 0, 0)) [1, exp 1] [-46, -43] \<noteq> None"
    using t c by blast
  ultimately show ?thesis
    using calibrate_two_points c by simp
qed



subsection \<open>From the fit to the production runs\<close>

lemma in_units_Pa_bar:
  "in_units \<lparr>magnitudes = ps, units = Pa\<rparr> bar
     = \<lparr>magnitudes = map (\<lambda>p. p / 100000) ps, units = bar\<rparr>"
  by (simp add: in_units_def unit_in_Pa_def)

text \<open>
  Claim C2. For target pressures given in pascal, all positive, the array is converted
  to bar (each magnitude divided by 100000) before the logarithm is taken, and the
  chemical potential computed for each pressure, which is the one its production run is
  given for methane, is \<open>slope \<cdot> ln (P / 100000) + intercept\<close>.
\<close>

theorem target_mus_from_bar:
  assumes "\<forall>p\<in>set ps. 0 < p"
  shows "in_units \<lparr>magnitudes = ps, units = Pa\<rparr> bar
           = \<lparr>magnitudes = map (\<lambda>p. p / 100000) ps, units = bar\<rparr>
         \<and> target_mus fit \<lparr>magnitudes = ps, units = Pa\<rparr>
           = map (\<lambda>p. Some (slope fit * ln (p / 100000) + intercept fit)) ps
         \<and> map chemical_potentials (production_runs fit \<lparr>magnitudes = ps, units = Pa\<rparr>)
           = map (\<lambda>p. [NoPotential, Mu (Some (slope fit * ln (p / 100000) + intercept fit))]) ps"
proof -
  have t: "target_mus fit \<lparr>magnitudes = ps, units = Pa\<rparr>
           = map (\<lambda>p. Some (slope fit * ln (p / 100000) + intercept fit)) ps"
    using assms by (simp add: target_mus_def in_units_Pa_bar np_log_def)
  have "map chemical_potentials (production_runs fit \<lparr>magnitudes = ps, units = Pa\<rparr>)
           = map (\<lambda>p. [NoPotential, Mu (Some (slope fit * ln (p / 100000) + intercept fit))]) ps"
    unfolding production_runs_def t
    by (simp add: production_run_def zip_map2 zip_same_conv_map comp_def)
  with t show ?thesis
    by (simp add: in_units_Pa_bar)
qed

theorem target_mus_from_bar_witness:
  "(0::real) < 100000
   \<and> target_mus \<lparr>slope = 3, intercept = -46, r_value = 1, p_value = 0, stderr = 0\<rparr>
        \<lparr>magnitudes = [100000], units = Pa\<rparr> = [Some (-46)]
   \<and> map chemical_potentials
        (production_runs \<lparr>slope = 3, intercept = -46, r_value = 1, p_value = 0, stderr = 0\<rparr>
           \<lparr>magnitudes = [100000], units = Pa\<rparr>) = [[NoPotential, Mu (Some (-46))]]"
proof -
  have h: "\<forall>p\<in>set [100000::real]. 0 < p"
    by simp
  show ?thesis
    using target_mus_from_bar [OF h,
        of "\<lparr>slope = 3, intercept = -46, r_value = 1, p_value = 0, stderr = 0\<rparr>"]
    by simp
qed



text \<open>
  Claim C8. Two fits with the same slope and the same intercept give the same chemical
  potentials and the same production runs for any target pressures, whatever their
  \<open>r_value\<close>, \<open>p_value\<close> and \<open>stderr\<close> are.
\<close>

theorem fit_quality_unused:
  assumes "slope fit1 = slope fit2" "intercept fit1 = intercept fit2"
  shows "target_mus fit1 ps = target_mus fit2 ps
         \<and> production_runs fit1 ps = production_runs fit2 ps"
  using assms by (simp add: target_mus_def production_runs_def)

theorem fit_quality_unused_witness:
  "calibrate (\<lambda>x y. (1, 0, 0)) [1, exp 1] [-46, -43]
     = Some \<lparr>slope = 3, intercept = -46, r_value = 1, p_value = 0, stderr = 0\<rparr>
   \<and> calibrate (\<lambda>x y. (1 / 2, 1 / 10, 7)) [1, exp 1] [-46, -43]
     = Some \<lparr>slope = 3, intercept = -46, r_value = 1 / 2, p_value = 1 / 10, stderr = 7\<rparr>
   \<and> production_runs \<lparr>slope = 3, intercept = -46, r_value = 1, p_value = 0, stderr = 0\<rparr> pressures
     = production_runs \<lparr>slope = 3, intercept = -46, r_value = 1 / 2, p_value = 1 / 10, stderr = 7\<rparr> pressures"
proof -
  have c: "calibrate (\<lambda>x y. (1 / 2, 1 / 10, 7)) [1, exp 1] [-46, -43]
     = Some \<lparr>slope = 3, intercept = -46, r_value = 1 / 2, p_value = 1 / 10, stderr = 7\<rparr>"
    by (simp add: calibrate_def np_log_def linregress_def mean_list_def Let_def)
  show ?thesis
    using fit_quality_unused
      [of "\<lparr>slope = 3, intercept = -46, r_value = 1, p_value = 0, stderr = 0\<rparr>"
          "\<lparr>slope = 3, intercept = -46, r_value = 1 / 2, p_value = 1 / 10, stderr = 7\<rparr>" pressures]
      c calibrate_two_points
    by simp
qed






subsection \<open>Averaging after the warm-up\<close>

lemma genfromtxt_table:
  assumes "2 \<le> length file_lines" "\<forall>r\<in>set file_lines. length r = ncols" "2 \<le> ncols"
  shows "genfromtxt file_lines = Inr (Array2 ncols file_lines)"
proof -
  have f: "filter (\<lambda>r. r \<noteq> []) file_lines = file_lines"
    using assms(2,3) by (auto simp: filter_id_conv)
  obtain r1 r2 rs where l: "file_lines = r1 # r2 # rs"
    using assms(1) by (cases file_lines; cases "tl file_lines") auto
  show ?thesis
    unfolding genfromtxt_def f using assms(2,3)
    by (auto simp: l list_all_iff)
qed

lemma sum_list_drop_nth:
  fixes f :: "'a \<Rightarrow> real"
  shows "sum_list (map f (drop n xs)) = (\<Sum>i = n..<length xs. f (xs ! i))"
proof (cases "n \<le> length xs")
  case True
  have "sum_list (map f (drop n xs)) = (\<Sum>i = 0..<length xs - n. f (xs ! (n + i)))"
    by (simp add: sum_list_sum_nth True)
  also have "\<dots> = (\<Sum>i = n..<length xs. f (xs ! i))"
    using sum.shift_bounds_nat_ivl [of "\<lambda>i. f (xs ! i)" 0 n "length xs - n"] True
    by (simp add: add.commute)
  finally show ?thesis .
next
  case False
  then show ?thesis by simp
qed

lemma np_mean_drop:
  fixes f :: "'a \<Rightarrow> real"
  assumes "n < length xs"
  shows "np_mean (map f (drop n xs))
           = Some ((\<Sum>i = n..<length xs. f (xs ! i)) / real (length xs - n))"
  using assms by (simp add: np_mean_def sum_list_drop_nth)

text \<open>
  Claim C5, amended. For an output table of more than 3000 rows, each with the same
  number of fields, at least nine: the reported mean pressure is the arithmetic mean of
  the sixth field over the rows from index 3000 to the end, and the reported mean loading
  is the arithmetic mean over the same rows of the ninth field divided by the 12 unit
  cells. The first 3000 rows do not contribute: replacing them by any other 3000 rows
  leaves both means as they are.
\<close>

theorem mean_after_warmup:
  assumes "3000 < length file_lines" "\<forall>r\<in>set file_lines. length r = ncols" "nmol_col \<le> ncols"
  shows "file_mean_pressure file_lines
           = Inr (Some ((\<Sum>i = 3000..<length file_lines. file_lines ! i ! 5)
                          / real (length file_lines - 3000)))
         \<and> file_mean_loading file_lines
           = Inr (Some ((\<Sum>i = 3000..<length file_lines. file_lines ! i ! 8 / 12)
                          / real (length file_lines - 3000)))
         \<and> (\<forall>warmup. length warmup = 3000 \<and> (\<forall>r\<in>set warmup. length r = ncols)
              \<longrightarrow> file_mean_pressure (warmup @ drop 3000 file_lines)
                    = file_mean_pressure file_lines
                \<and> file_mean_loading (warmup @ drop 3000 file_lines)
                    = file_mean_loading file_lines)"
proof -
  have c: "2 \<le> ncols" "5 < ncols" "8 < ncols"
    using assms(3) by (simp_all add: nmol_col_def)
  have g: "genfromtxt ls = Inr (Array2 ncols ls)"
    if "3000 < length ls" "\<forall>r\<in>set ls. length r = ncols" for ls
    by (rule genfromtxt_table) (use that c in simp_all)
  have p: "file_mean_pressure ls = Inr (np_mean (map (\<lambda>r. r ! 5) (drop 3000 ls)))"
    and l: "file_mean_loading ls = Inr (np_mean (map (\<lambda>r. r ! 8 / 12) (drop 3000 ls)))"
    if "3000 < length ls" "\<forall>r\<in>set ls. length r = ncols" for ls
    using c by (simp_all add: file_mean_pressure_def file_mean_loading_def g [OF that]
        mean_pressure_def mean_loading_def rows_from_col_def pressure_col_def nmol_col_def
        n_unitcells_def comp_def)
  have 1: "file_mean_pressure file_lines
           = Inr (Some ((\<Sum>i = 3000..<length file_lines. file_lines ! i ! 5)
                          / real (length file_lines - 3000)))"
    unfolding p [OF assms(1,2)] np_mean_drop [OF assms(1)] ..
  have 2: "file_mean_loading file_lines
           = Inr (Some ((\<Sum>i = 3000..<length file_lines. file_lines ! i ! 8 / 12)
                          / real (length file_lines - 3000)))"
    unfolding l [OF assms(1,2)] np_mean_drop [OF assms(1)] ..
  have 3: "file_mean_pressure (warmup @ drop 3000 file_lines) = file_mean_pressure file_lines
           \<and> file_mean_loading (warmup @ drop 3000 file_lines) = file_mean_loading file_lines"
    if w: "length warmup = 3000 \<and> (\<forall>r\<in>set warmup. length r = ncols)" for warmup
  proof -
    let ?ls = "warmup @ drop 3000 file_lines"
    have a: "3000 < length ?ls"
      using w assms(1) by simp
    have b: "\<forall>r\<in>set ?ls. length r = ncols"
      using w assms(2) by (auto dest: in_set_dropD)
    have d: "drop 3000 ?ls = drop 3000 file_lines"
      using w by simp
    show ?thesis
      unfolding p [OF a b] l [OF a b] p [OF assms(1,2)] l [OF assms(1,2)] d by simp
  qed
  show ?thesis
    using 1 2 3 by blast
qed

lemma sample_file:
  "length (replicate 3000 zero_row @ [last_row]) = 3001"
  "\<forall>r\<in>set (replicate 3000 zero_row @ [last_row]). length r = 9"
  "drop 3000 (replicate 3000 zero_row @ [last_row]) = [last_row]"
  by (simp_all add: zero_row_def last_row_def)

lemma last_row_values: "last_row ! 5 = 7" "last_row ! 8 = 12"
  by (simp_all add: last_row_def)

lemma sample_file_table:
  "genfromtxt (replicate 3000 zero_row @ [last_row])
     = Inr (Array2 9 (replicate 3000 zero_row @ [last_row]))"
  by (rule genfromtxt_table) (simp_all add: sample_file)

theorem mean_after_warmup_witness:
  "3000 < length (replicate 3000 zero_row @ [last_row])
   \<and> length zero_row = 9 \<and> length last_row = 9 \<and> nmol_col \<le> 9
   \<and> file_mean_pressure (replicate 3000 zero_row @ [last_row]) = Inr (Some 7)
   \<and> file_mean_loading (replicate 3000 zero_row @ [last_row]) = Inr (Some 1)
   \<and> length (replicate 3000 last_row) = 3000
   \<and> file_mean_pressure (replicate 3000 last_row @ [last_row]) = Inr (Some 7)
   \<and> file_mean_loading (replicate 3000 last_row @ [last_row]) = Inr (Some 1)"
proof -
  have w: "length (replicate 3000 last_row) = 3000
             \<and> (\<forall>r\<in>set (replicate 3000 last_row). length r = 9)"
    by (simp add: last_row_def)
  have a: "3000 < length (replicate 3000 zero_row @ [last_row])"
    by (simp add: sample_file)
  have n: "nmol_col \<le> 9"
    by (simp add: nmol_col_def)
  have s: "{3000..<3001} = {3000::nat}"
    by auto
  have v: "(replicate 3000 zero_row @ [last_row]) ! 3000 = last_row"
    by (simp add: nth_append)
  note t = mean_after_warmup [OF a sample_file(2) n]
  have p: "file_mean_pressure (replicate 3000 zero_row @ [last_row]) = Inr (Some 7)"
    and l: "file_mean_loading (replicate 3000 zero_row @ [last_row]) = Inr (Some 1)"
    using t by (simp_all add: sample_file(1) s v last_row_values)
  have "file_mean_pressure (replicate 3000 last_row @ drop 3000 (replicate 3000 zero_row @ [last_row]))
          = file_mean_pressure (replicate 3000 zero_row @ [last_row])
        \<and> file_mean_loading (replicate 3000 last_row @ drop 3000 (replicate 3000 zero_row @ [last_row]))
          = file_mean_loading (replicate 3000 zero_row @ [last_row])"
    using t w by blast
  then have "file_mean_pressure (replicate 3000 last_row @ [last_row]) = Inr (Some 7)"
    and "file_mean_loading (replicate 3000 last_row @ [last_row]) = Inr (Some 1)"
    unfolding sample_file(3) p l by simp_all
  then show ?thesis
    using p l a n sample_file(2) by (simp add: sample_file(1))
qed

text \<open>
  Claim C5 as stated fails for the loading: on a table of 3001 rows whose last row has 12
  molecules, the arithmetic mean of the column over the rows from index 3000 is 12, and
  the reported mean loading is 1.
\<close>

theorem mean_loading_counterexample:
  "sum_list (map (\<lambda>r. r ! (nmol_col - 1)) (drop 3000 (replicate 3000 zero_row @ [last_row])))
       / real (length (drop 3000 (replicate 3000 zero_row @ [last_row]))) = 12
   \<and> file_mean_loading (replicate 3000 zero_row @ [last_row]) = Inr (Some 1)
   \<and> file_mean_loading (replicate 3000 zero_row @ [last_row]) \<noteq> Inr (Some 12)"
  by (simp add: file_mean_loading_def sample_file_table mean_loading_def rows_from_col_def
      nmol_col_def sample_file(3) np_mean_def n_unitcells_def last_row_values)

text \<open>
  Claim C10, amended. For an output table of at least two and at most 3000 rows, each
  with the same number of fields, at least nine: the table is read as a two-dimensional
  array, the slice of rows after the warm-up is empty, and both means are nan, with no
  exception.
\<close>

theorem short_table_mean_nan:
  assumes "2 \<le> length file_lines" "length file_lines \<le> 3000"
    "\<forall>r\<in>set file_lines. length r = ncols" "nmol_col \<le> ncols"
  shows "genfromtxt file_lines = Inr (Array2 ncols file_lines)
         \<and> rows_from_col (Array2 ncols file_lines) 3000 (pressure_col - 1) = Inr []
         \<and> rows_from_col (Array2 ncols file_lines) 3000 (nmol_col - 1) = Inr []
         \<and> file_mean_pressure file_lines = Inr None
         \<and> file_mean_loading file_lines = Inr None"
proof -
  have c: "2 \<le> ncols" "5 < ncols" "8 < ncols"
    using assms(4) by (simp_all add: nmol_col_def)
  have g: "genfromtxt file_lines = Inr (Array2 ncols file_lines)"
    by (rule genfromtxt_table [OF assms(1,3) c(1)])
  show ?thesis
    using assms(2) c
    by (simp add: g file_mean_pressure_def file_mean_loading_def mean_pressure_def
        mean_loading_def rows_from_col_def pressure_col_def nmol_col_def np_mean_def)
qed

theorem short_table_mean_nan_witness:
  "2 \<le> length [zero_row, last_row] \<and> length [zero_row, last_row] \<le> 3000
   \<and> length zero_row = 9 \<and> length last_row = 9 \<and> nmol_col \<le> 9
   \<and> file_mean_pressure [zero_row, last_row] = Inr None
   \<and> file_mean_loading [zero_row, last_row] = Inr None"
proof -
  have a: "2 \<le> length [zero_row, last_row]" "length [zero_row, last_row] \<le> 3000"
    by simp_all
  have r: "\<forall>r\<in>set [zero_row, last_row]. length r = 9"
    by (simp add: zero_row_def last_row_def)
  have n: "nmol_col \<le> 9"
    by (simp add: nmol_col_def)
  show ?thesis
    using short_table_mean_nan [OF a r n] r n by simp
qed

text \<open>
  Claim C10 as stated fails on a table of one row: it is read as a one-dimensional array,
  and the index expression with two indices raises IndexError.
\<close>

theorem single_row_counterexample:
  "length [last_row] \<le> 3000
   \<and> genfromtxt [last_row] = Inr (Array1 last_row)
   \<and> file_mean_pressure [last_row] = Inl IndexError
   \<and> file_mean_loading [last_row] = Inl IndexError"
proof -
  have g: "genfromtxt [last_row] = Inr (Array1 last_row)"
    by (simp add: genfromtxt_def last_row_def)
  show ?thesis
    by (simp add: g file_mean_pressure_def file_mean_loading_def mean_pressure_def
        mean_loading_def rows_from_col_def)
qed

subsection \<open>Directories of the runs\<close>

lemma str_nat_examples: "str_nat 46 = ''46''" "str_nat 6000 = ''6000''"
  by (simp_all add: str_nat.simps digit_char_def)

lemma dirname_examples:
  "pure_dirname (-46) = ''pure_mu_-46''" "zeo_dirname 6000 = ''zeo_press_6000''"
  by (simp_all add: pure_dirname_def zeo_dirname_def format_0f_def round_half_even_def
      str_nat_examples)

lemma make_run_dirs_all_exist:
  assumes "\<forall>d\<in>set ds. entries st d = Some Directory"
  shows "make_run_dirs st ds = Inr st"
  using assms by (induction ds) (simp_all add: make_run_dir_def os_path_isdir_def)

text \<open>
  Claim C7, amended. When the name of the run's directory is a directory already, no
  \<^verbatim>\<open>os.mkdir\<close> is called, no error is raised and the state is unchanged; so both loops
  leave the state unchanged when all their directories exist. When nothing has that
  name, the directory is created.
\<close>

theorem make_run_dir_cases:
  "(entries st d = Some Directory \<longrightarrow> make_run_dir st d = Inr st)
   \<and> (entries st d = None \<longrightarrow>
        make_run_dir st d = Inr (st\<lparr>entries := (entries st)(d \<mapsto> Directory),
                                     mkdir_calls := mkdir_calls st @ [d]\<rparr>))
   \<and> ((\<forall>mu\<in>set mus_adsorbate. entries st (pure_dirname mu) = Some Directory)
        \<longrightarrow> calibration_loop_dirs st = Inr st)
   \<and> ((\<forall>p\<in>set (magnitudes ps). entries st (zeo_dirname p) = Some Directory)
        \<longrightarrow> production_loop_dirs st ps = Inr st)"
  by (simp add: make_run_dir_def os_path_isdir_def os_mkdir_def calibration_loop_dirs_def
      production_loop_dirs_def make_run_dirs_all_exist)

theorem make_run_dir_cases_witness:
  "make_run_dir \<lparr>entries = (\<lambda>d. Some Directory), mkdir_calls = []\<rparr> ''pure_mu_-46''
     = Inr \<lparr>entries = (\<lambda>d. Some Directory), mkdir_calls = []\<rparr>
   \<and> calibration_loop_dirs \<lparr>entries = (\<lambda>d. Some Directory), mkdir_calls = []\<rparr>
     = Inr \<lparr>entries = (\<lambda>d. Some Directory), mkdir_calls = []\<rparr>
   \<and> production_loop_dirs \<lparr>entries = (\<lambda>d. Some Directory), mkdir_calls = []\<rparr> pressures
     = Inr \<lparr>entries = (\<lambda>d. Some Directory), mkdir_calls = []\<rparr>
   \<and> make_run_dir \<lparr>entries = Map.empty, mkdir_calls = []\<rparr> ''pure_mu_-46''
     = Inr \<lparr>entries = [''pure_mu_-46'' \<mapsto> Directory], mkdir_calls = [''pure_mu_-46'']\<rparr>"
  using make_run_dir_cases
      [of "\<lparr>entries = (\<lambda>d. Some Directory), mkdir_calls = []\<rparr>" "''pure_mu_-46''" pressures]
    make_run_dir_cases [of "\<lparr>entries = Map.empty, mkdir_calls = []\<rparr>" "''pure_mu_-46''" pressures]
  by simp

text \<open>
  Claim C7 as stated fails when the name of the first run's directory is taken by a
  regular file: the directory does not exist, \<^verbatim>\<open>os.mkdir\<close> is called, and it raises
  FileExistsError instead of creating the directory.
\<close>

theorem regular_file_counterexample:
  "pure_dirname (-46) = ''pure_mu_-46''
   \<and> \<not> os_path_isdir \<lparr>entries = [''pure_mu_-46'' \<mapsto> RegularFile], mkdir_calls = []\<rparr>
          ''pure_mu_-46''
   \<and> make_run_dir \<lparr>entries = [''pure_mu_-46'' \<mapsto> RegularFile], mkdir_calls = []\<rparr>
        ''pure_mu_-46'' = Inl FileExistsError
   \<and> calibration_loop_dirs \<lparr>entries = [''pure_mu_-46'' \<mapsto> RegularFile], mkdir_calls = []\<rparr>
        = Inl FileExistsError"
proof -
  have m: "make_run_dir \<lparr>entries = [''pure_mu_-46'' \<mapsto> RegularFile], mkdir_calls = []\<rparr>
        ''pure_mu_-46'' = Inl FileExistsError"
    by (simp add: make_run_dir_def os_path_isdir_def os_mkdir_def)
  show ?thesis
    by (simp add: m dirname_examples calibration_loop_dirs_def mus_adsorbate_values
        os_path_isdir_def)
qed

subsection \<open>Rounding in binary64\<close>









































end
